theory Spec2Isabelle
  imports Complex_Main "HOL-Library.Word"
begin

unbundle bit_operations_syntax

section \<open>The dataset core of the engine (NNTypes.h)\<close>

text \<open>
  The development follows \<^verbatim>\<open>src/amazon/dsstne/engine/NNTypes.h\<close>: the descriptor
  validation (\<^verbatim>\<open>NNDataSetDescriptor::isSupported\<close>), the error and output-delta
  dispatchers of \<^verbatim>\<open>NNDataSet<T>\<close> and the two sparse transposition entry points.
  Unsigned 32-bit values are \<open>32 word\<close>. \<^verbatim>\<open>NNFloat\<close> values are only passed through
  by this layer, so they are a type parameter \<open>'f\<close>.
\<close>

subsection \<open>Attribute bits\<close>

text \<open>
  The enumeration \<^verbatim>\<open>NNDataSetEnums::Attributes\<close> is declared in \<^verbatim>\<open>NNEnum.h\<close>, which is
  not part of the sources at hand. The header only uses the enumerators below, each as a
  mask on the 32-bit attribute word; their values are a parameter of every definition
  that tests a bit.
\<close>

record Attributes =
  Sparse :: "32 word"
  Boolean :: "32 word"
  SparseIgnoreZero :: "32 word"
  Indexed :: "32 word"
  Weighted :: "32 word"

text \<open>Modelled from the spec: the values of the enumerators of \<^verbatim>\<open>NNDataSetEnums::Attributes\<close>
  (\<^verbatim>\<open>NNEnum.h\<close>) are missing. The spec describes the attributes as a bitset over
  Sparse, Boolean, Indexed, Weighted and SparseIgnoreZero: one bit each, here with the
  values of the engine's enumeration. Only the concrete instances of the theorems below
  use this instance.
\<close>

definition NNDataSetEnums :: Attributes where
  "NNDataSetEnums =
     \<lparr> Sparse = 1, Boolean = 2, SparseIgnoreZero = 32, Indexed = 64, Weighted = 128 \<rparr>"

subsection \<open>Descriptor and validation\<close>

record NNDataSetDimensions =
  dimensions :: "32 word"
  width :: "32 word"
  height :: "32 word"
  length_z :: "32 word"

text \<open>
  \<^verbatim>\<open>struct NNDataSetDescriptor\<close>. The element type enumeration
  (\<^verbatim>\<open>NNDataSetEnums::DataType\<close>) is declared in the missing \<^verbatim>\<open>NNEnum.h\<close> and is the
  type parameter \<open>'dt\<close>.
\<close>

record ('dt, 'f) NNDataSetDescriptor =
  descriptor_name :: string
  descriptor_dataType :: 'dt
  descriptor_attributes :: "32 word"
  descriptor_dim :: NNDataSetDimensions
  descriptor_examples :: "32 word"
  descriptor_sparseDensity :: 'f

text \<open>
  \<^verbatim>\<open>static const vector<Attributes> SUPPORTED_ATTRIBUTES(Attributes::Sparse);\<close>
  The parentheses select the sized constructor of \<^verbatim>\<open>std::vector\<close>: the enumerator is
  converted to the element count, and every element is value-initialised, that is, the
  mask with no bit.
\<close>

definition SUPPORTED_ATTRIBUTES :: "Attributes \<Rightarrow> 32 word list" where
  "SUPPORTED_ATTRIBUTES E = replicate (unat (Sparse E)) 0"

text \<open>
  \<^verbatim>\<open>for (auto mask : SUPPORTED_ATTRIBUTES) if (attributes & mask) attributes -= mask;\<close>
  \<^verbatim>\<open>return attributes == 0;\<close>
\<close>

definition isSupported :: "Attributes \<Rightarrow> 32 word \<Rightarrow> bool" where
  "isSupported E attributes =
     (fold (\<lambda>mask attributes. if attributes AND mask \<noteq> 0 then attributes - mask else attributes)
        (SUPPORTED_ATTRIBUTES E) attributes = 0)"

datatype runtime_error = Unsupported_attributes "32 word" string

datatype ('dt, 'f) NNDataSetBase = New_NNDataSet "('dt, 'f) NNDataSetDescriptor"

text \<open>Modelled from the spec: the body of \<^verbatim>\<open>createNNDataSet\<close> is missing (the header only
  declares it). Following the documentation of the declaration ("Only attributes specified
  by the NNDataSetDescriptor::isSupported is valid. If any other attributes are specified,
  a std::runtime_error is thrown") and section 4.5 of the spec (the call fails, and no
  object is returned, when the attributes are not supported), the factory validates the
  attribute word with \<open>isSupported\<close>; the object it builds is represented by the
  descriptor it is built from.
\<close>

definition createNNDataSet ::
  "Attributes \<Rightarrow> ('dt, 'f) NNDataSetDescriptor \<Rightarrow> runtime_error + ('dt, 'f) NNDataSetBase" where
  "createNNDataSet E descriptor =
     (if isSupported E (descriptor_attributes descriptor)
      then Inr (New_NNDataSet descriptor)
      else Inl (Unsupported_attributes (descriptor_attributes descriptor) (descriptor_name descriptor)))"

section \<open>The dataset and its dispatchers\<close>

subsection \<open>Collaborators\<close>

text \<open>
  Device pointers are addresses; \<^verbatim>\<open>NULL\<close> is the address 0. A \<^verbatim>\<open>GpuBuffer\<close>
  (declared outside this header) is used here only through its device pointer
  \<^verbatim>\<open>_pDevData\<close> and its \<^verbatim>\<open>Copy\<close> method. Members \<^verbatim>\<open>_x\<close> of the source are the
  fields \<open>m_x\<close>.
\<close>

type_synonym addr = nat

definition NULL :: addr where
  "NULL = 0"

record GpuBuffer =
  m_pDevData :: addr

datatype Activation =
  Sigmoid | Tanh | RectifiedLinear | Linear | ParametricRectifiedLinear | SoftPlus | SoftSign
  | SoftMax | RELUMax | LinearMax | ExponentialLinear | LeakyRectifiedLinear
  | ScaledExponentialLinear

text \<open>
  The compute kernels (\<^verbatim>\<open>kernels.h\<close>) are invoked by name. A call is the name of the
  kernel with its arguments in the order of the source.
\<close>

datatype 'f arg = U32 "32 word" | Act Activation | Ptr addr | Flag bool | Flt 'f

type_synonym 'f kernel_call = "string \<times> 'f arg list"

text \<open>
  What a member function does to the outside, in order: kernel launches, the device copy
  \<^verbatim>\<open>GpuBuffer::Copy\<close> (destination, source), the call of the member
  \<^verbatim>\<open>GenerateSparseTransposedMatrix\<close> (defined outside this header), output on
  \<^verbatim>\<open>cout\<close>, \<^verbatim>\<open>getGpu().Shutdown()\<close> and \<^verbatim>\<open>exit\<close>.
\<close>

datatype 'f event =
  Kernel "'f kernel_call"
  | GpuBuffer_Copy addr addr
  | Call_GenerateSparseTransposedMatrix "32 word" addr
  | Cout string
  | GpuShutdown
  | Exit int

text \<open>
  A run of a member function: the events it causes and the value it returns;
  \<open>returned = None\<close> when the process is terminated before the function returns.
\<close>

record ('f, 'r) run =
  events :: "'f event list"
  returned :: "'r option"

text \<open>The statement \<^verbatim>\<open>k(args);\<close>\<close>

definition launch :: "string \<Rightarrow> 'f arg list \<Rightarrow> 'f event list" where
  "launch k args = [Kernel (k, args)]"

text \<open>
  \<^verbatim>\<open>return k(args);\<close> The value of a kernel is given by the kernel library \<open>K\<close>,
  a parameter.
\<close>

definition return_kernel :: "('f kernel_call \<Rightarrow> 'f) \<Rightarrow> string \<Rightarrow> 'f arg list \<Rightarrow> ('f, 'f) run" where
  "return_kernel K k args = \<lparr> events = launch k args, returned = Some (K (k, args)) \<rparr>"

text \<open>\<^verbatim>\<open>k(args);\<close> followed by the \<^verbatim>\<open>return true;\<close> that ends the function.\<close>

definition kernel_return_true :: "string \<Rightarrow> 'f arg list \<Rightarrow> ('f, bool) run" where
  "kernel_return_true k args = \<lparr> events = launch k args, returned = Some True \<rparr>"

text \<open>
  \<^verbatim>\<open>cout << msg << endl; getGpu().Shutdown(); exit(-1);\<close>
  The process ends here: nothing is returned.
\<close>

definition shutdown_exit :: "string \<Rightarrow> ('f, 'r) run" where
  "shutdown_exit msg = \<lparr> events = [Cout msg, GpuShutdown, Exit (- 1)], returned = None \<rparr>"

subsection \<open>The dataset\<close>

text \<open>
  The members of \<^verbatim>\<open>NNDataSetBase\<close> and \<^verbatim>\<open>NNDataSet<T>\<close> that the dispatchers read:
  the attribute word, the device buffers, the weights on the host, and the state of the
  transposed sparse matrix. Each \<^verbatim>\<open>unique_ptr<GpuBuffer<...>>\<close> member is taken to hold a
  buffer: the dispatchers dereference these members without a test, and what a null
  member would do there is undefined in the source language.
\<close>

record 'f NNDataSet =
  m_attributes :: "32 word"
  m_pbSparseStart :: GpuBuffer
  m_pbSparseEnd :: GpuBuffer
  m_pbSparseIndex :: GpuBuffer
  m_vDataWeight :: "'f list"
  m_pbDataWeight :: GpuBuffer
  m_pbIndex :: GpuBuffer
  m_pbDenoisingRandom :: GpuBuffer
  m_pbSparseTransposedStart :: GpuBuffer
  m_pbSparseTransposedEnd :: GpuBuffer
  m_pbSparseTransposedIndex :: GpuBuffer
  m_pbSparseTransposedData :: GpuBuffer
  m_bDirty :: bool
  m_batch :: "32 word"
  m_pbData :: GpuBuffer
  m_pbSparseData :: GpuBuffer

subsection \<open>Sparse transposition\<close>

text \<open>
  \<open>G batch pLayer\<close> is the effect of \<^verbatim>\<open>GenerateSparseTransposedMatrix\<close> on the
  object, a parameter. The members are read after it has run.
\<close>

text \<open>\<^verbatim>\<open>NNDataSet<T>::CalculateSparseTransposedMatrix\<close>, lines 567 to 597 of the header.\<close>

definition CalculateSparseTransposedMatrix ::
  "(32 word \<Rightarrow> addr \<Rightarrow> 'f NNDataSet \<Rightarrow> 'f NNDataSet) \<Rightarrow> Attributes \<Rightarrow> 'f NNDataSet
     \<Rightarrow> 32 word \<Rightarrow> 32 word \<Rightarrow> addr \<Rightarrow> ('f, bool) run \<times> 'f NNDataSet" where
  "CalculateSparseTransposedMatrix G E this_entry position batch pLayer =
     (let rebuild = (m_bDirty this_entry \<or> batch \<noteq> m_batch this_entry);
          this = (if rebuild then G batch pLayer this_entry else this_entry);
          pDataWeight = (if m_attributes this AND Weighted E \<noteq> 0 then m_pDevData (m_pbDataWeight this) else NULL);
          pSparseTransposedData =
            (if m_attributes this AND Weighted E \<noteq> 0 \<or> \<not> (m_attributes this AND Boolean E \<noteq> 0)
             then m_pDevData (m_pbSparseTransposedData this) else NULL)
      in (\<lparr> events =
             (if rebuild then [Call_GenerateSparseTransposedMatrix batch pLayer] else [])
             @ [GpuBuffer_Copy (m_pDevData (m_pbSparseTransposedEnd this))
                  (m_pDevData (m_pbSparseTransposedStart this))]
             @ (if m_attributes this AND Boolean E \<noteq> 0 then
                  (if m_attributes this AND Indexed E \<noteq> 0 then
                     launch ''kCalculateIndexedSparseTransposedMatrix''
                       [U32 position, U32 batch, Ptr (m_pDevData (m_pbIndex this)),
                        Ptr (m_pDevData (m_pbSparseStart this)), Ptr (m_pDevData (m_pbSparseEnd this)),
                        Ptr (m_pDevData (m_pbSparseIndex this)), Ptr pDataWeight,
                        Ptr (m_pDevData (m_pbSparseTransposedEnd this)),
                        Ptr (m_pDevData (m_pbSparseTransposedIndex this)), Ptr pSparseTransposedData]
                   else
                     launch ''kCalculateSparseTransposedMatrix''
                       [U32 position, U32 batch, Ptr (m_pDevData (m_pbSparseStart this)),
                        Ptr (m_pDevData (m_pbSparseEnd this)), Ptr (m_pDevData (m_pbSparseIndex this)),
                        Ptr pDataWeight, Ptr (m_pDevData (m_pbSparseTransposedEnd this)),
                        Ptr (m_pDevData (m_pbSparseTransposedIndex this)), Ptr pSparseTransposedData])
                else
                  (if m_attributes this AND Indexed E \<noteq> 0 then
                     launch ''kCalculateIndexedSparseTransposedAnalogMatrix''
                       [U32 position, U32 batch, Ptr (m_pDevData (m_pbIndex this)),
                        Ptr (m_pDevData (m_pbSparseStart this)), Ptr (m_pDevData (m_pbSparseEnd this)),
                        Ptr (m_pDevData (m_pbSparseIndex this)), Ptr pDataWeight,
                        Ptr (m_pDevData (m_pbSparseData this)),
                        Ptr (m_pDevData (m_pbSparseTransposedEnd this)),
                        Ptr (m_pDevData (m_pbSparseTransposedIndex this)), Ptr pSparseTransposedData]
                   else
                     launch ''kCalculateSparseTransposedAnalogMatrix''
                       [U32 position, U32 batch, Ptr (m_pDevData (m_pbSparseStart this)),
                        Ptr (m_pDevData (m_pbSparseEnd this)), Ptr (m_pDevData (m_pbSparseIndex this)),
                        Ptr pDataWeight, Ptr (m_pDevData (m_pbSparseData this)),
                        Ptr (m_pDevData (m_pbSparseTransposedEnd this)),
                        Ptr (m_pDevData (m_pbSparseTransposedIndex this)), Ptr pSparseTransposedData])),
            returned = Some True \<rparr>, this))"

text \<open>\<^verbatim>\<open>NNDataSet<T>::CalculateSparseTransposedDenoisedMatrix\<close>, lines 599 to 639 of the header.\<close>

definition CalculateSparseTransposedDenoisedMatrix ::
  "(32 word \<Rightarrow> addr \<Rightarrow> 'f NNDataSet \<Rightarrow> 'f NNDataSet) \<Rightarrow> Attributes \<Rightarrow> 'f NNDataSet
     \<Rightarrow> 32 word \<Rightarrow> 32 word \<Rightarrow> addr \<Rightarrow> ('f, bool) run \<times> 'f NNDataSet" where
  "CalculateSparseTransposedDenoisedMatrix G E this_entry position batch pLayer =
     (let rebuild = (m_bDirty this_entry \<or> batch \<noteq> m_batch this_entry);
          this = (if rebuild then G batch pLayer this_entry else this_entry);
          pDataWeight = (if m_attributes this AND Weighted E \<noteq> 0 then m_pDevData (m_pbDataWeight this) else NULL);
          pSparseTransposedData =
            (if m_attributes this AND Weighted E \<noteq> 0 \<or> \<not> (m_attributes this AND Boolean E \<noteq> 0)
             then m_pDevData (m_pbSparseTransposedData this) else NULL)
      in (\<lparr> events =
             (if rebuild then [Call_GenerateSparseTransposedMatrix batch pLayer] else [])
             @ [GpuBuffer_Copy (m_pDevData (m_pbSparseTransposedEnd this))
                  (m_pDevData (m_pbSparseTransposedStart this))]
             @ (if m_attributes this AND Boolean E \<noteq> 0 then
                  (if m_attributes this AND Indexed E \<noteq> 0 then
                     launch ''kCalculateIndexedSparseTransposedDenoisedMatrix''
                       [U32 position, U32 batch, Ptr (m_pDevData (m_pbIndex this)),
                        Ptr (m_pDevData (m_pbSparseStart this)), Ptr (m_pDevData (m_pbSparseEnd this)),
                        Ptr (m_pDevData (m_pbSparseIndex this)), Ptr pDataWeight,
                        Ptr (m_pDevData (m_pbDenoisingRandom this)),
                        Ptr (m_pDevData (m_pbSparseTransposedEnd this)),
                        Ptr (m_pDevData (m_pbSparseTransposedIndex this)), Ptr pSparseTransposedData]
                   else
                     launch ''kCalculateSparseTransposedDenoisedMatrix''
                       [U32 position, U32 batch, Ptr (m_pDevData (m_pbSparseStart this)),
                        Ptr (m_pDevData (m_pbSparseEnd this)), Ptr (m_pDevData (m_pbSparseIndex this)),
                        Ptr pDataWeight, Ptr (m_pDevData (m_pbDenoisingRandom this)),
                        Ptr (m_pDevData (m_pbSparseTransposedEnd this)),
                        Ptr (m_pDevData (m_pbSparseTransposedIndex this)), Ptr pSparseTransposedData])
                else
                  (if m_attributes this AND Indexed E \<noteq> 0 then
                     launch ''kCalculateIndexedSparseTransposedAnalogDenoisedMatrix''
                       [U32 position, U32 batch, Ptr (m_pDevData (m_pbIndex this)),
                        Ptr (m_pDevData (m_pbSparseStart this)), Ptr (m_pDevData (m_pbSparseEnd this)),
                        Ptr (m_pDevData (m_pbSparseIndex this)), Ptr pDataWeight,
                        Ptr (m_pDevData (m_pbSparseData this)),
                        Ptr (m_pDevData (m_pbDenoisingRandom this)),
                        Ptr (m_pDevData (m_pbSparseTransposedEnd this)),
                        Ptr (m_pDevData (m_pbSparseTransposedIndex this)), Ptr pSparseTransposedData]
                   else
                     launch ''kCalculateSparseTransposedAnalogDenoisedMatrix''
                       [U32 position, U32 batch, Ptr (m_pDevData (m_pbSparseStart this)),
                        Ptr (m_pDevData (m_pbSparseEnd this)), Ptr (m_pDevData (m_pbSparseIndex this)),
                        Ptr pDataWeight, Ptr (m_pDevData (m_pbSparseData this)),
                        Ptr (m_pDevData (m_pbDenoisingRandom this)),
                        Ptr (m_pDevData (m_pbSparseTransposedEnd this)),
                        Ptr (m_pDevData (m_pbSparseTransposedIndex this)), Ptr pSparseTransposedData])),
            returned = Some True \<rparr>, this))"

subsection \<open>Error functions\<close>





text \<open>\<^verbatim>\<open>NNDataSet<T>::CalculateScaledMarginalCrossEntropyError\<close>, lines 875 to 908 of the header.\<close>

definition CalculateScaledMarginalCrossEntropyError ::
  "('f kernel_call \<Rightarrow> 'f) \<Rightarrow> Attributes \<Rightarrow> 'f NNDataSet \<Rightarrow> 32 word \<Rightarrow> 32 word \<Rightarrow> 32 word \<Rightarrow> addr
     \<Rightarrow> ('f, 'f) run" where
  "CalculateScaledMarginalCrossEntropyError K E this position batch stride pUnit =
     (let pDataWeight = (if m_attributes this AND Weighted E \<noteq> 0 then m_pDevData (m_pbDataWeight this) else NULL) in
      if m_attributes this AND Sparse E \<noteq> 0 then
        (let bSparseIgnoreZero = (m_attributes this AND SparseIgnoreZero E \<noteq> 0) in
         if m_attributes this AND Indexed E \<noteq> 0 then
           return_kernel K ''kCalculateIndexedSparseScaledMarginalCrossEntropyError''
             [U32 position, U32 batch, U32 stride, Ptr pUnit, Ptr (m_pDevData (m_pbIndex this)),
              Ptr (m_pDevData (m_pbSparseStart this)), Ptr (m_pDevData (m_pbSparseEnd this)),
              Ptr (m_pDevData (m_pbSparseIndex this)), Ptr pDataWeight, Flag bSparseIgnoreZero]
         else
           return_kernel K ''kCalculateSparseScaledMarginalCrossEntropyError''
             [U32 position, U32 batch, U32 stride, Ptr pUnit,
              Ptr (m_pDevData (m_pbSparseStart this)), Ptr (m_pDevData (m_pbSparseEnd this)),
              Ptr (m_pDevData (m_pbSparseIndex this)), Ptr pDataWeight, Flag bSparseIgnoreZero])
      else
        (if m_attributes this AND Indexed E \<noteq> 0 then
           return_kernel K ''kCalculateIndexedScaledMarginalCrossEntropyError''
             [U32 position, U32 batch, U32 stride, Ptr pUnit, Ptr (m_pDevData (m_pbIndex this)),
              Ptr (m_pDevData (m_pbData this)), Ptr pDataWeight]
         else
           return_kernel K ''kCalculateScaledMarginalCrossEntropyError''
             [U32 position, U32 batch, U32 stride, Ptr pUnit, Ptr (m_pDevData (m_pbData this)),
              Ptr pDataWeight]))"



text \<open>\<^verbatim>\<open>NNDataSet<T>::CalculateDataScaledMarginalCrossEntropyError\<close>, lines 1024 to 1079 of the header.\<close>

definition CalculateDataScaledMarginalCrossEntropyError ::
  "('f kernel_call \<Rightarrow> 'f) \<Rightarrow> Attributes \<Rightarrow> 'f NNDataSet \<Rightarrow> 32 word \<Rightarrow> 32 word \<Rightarrow> 32 word \<Rightarrow> addr
     \<Rightarrow> ('f, 'f) run" where
  "CalculateDataScaledMarginalCrossEntropyError K E this position batch stride pUnit =
     (let pDataWeight = (if m_attributes this AND Weighted E \<noteq> 0 then m_pDevData (m_pbDataWeight this) else NULL) in
      if m_attributes this AND Sparse E \<noteq> 0 then
        (let bSparseIgnoreZero = (m_attributes this AND SparseIgnoreZero E \<noteq> 0) in
         if m_attributes this AND Boolean E \<noteq> 0 then
           (if m_attributes this AND Indexed E \<noteq> 0 then
              return_kernel K ''kCalculateIndexedSparseScaledMarginalCrossEntropyError''
                [U32 position, U32 batch, U32 stride, Ptr pUnit, Ptr (m_pDevData (m_pbIndex this)),
                 Ptr (m_pDevData (m_pbSparseStart this)), Ptr (m_pDevData (m_pbSparseEnd this)),
                 Ptr (m_pDevData (m_pbSparseIndex this)), Ptr pDataWeight, Flag bSparseIgnoreZero]
            else
              return_kernel K ''kCalculateSparseScaledMarginalCrossEntropyError''
                [U32 position, U32 batch, U32 stride, Ptr pUnit,
                 Ptr (m_pDevData (m_pbSparseStart this)), Ptr (m_pDevData (m_pbSparseEnd this)),
                 Ptr (m_pDevData (m_pbSparseIndex this)), Ptr pDataWeight, Flag bSparseIgnoreZero])
         else
           (if m_attributes this AND Indexed E \<noteq> 0 then
              return_kernel K ''kCalculateIndexedSparseDataScaledMarginalCrossEntropyError''
                [U32 position, U32 batch, U32 stride, Ptr pUnit, Ptr (m_pDevData (m_pbIndex this)),
                 Ptr (m_pDevData (m_pbSparseStart this)), Ptr (m_pDevData (m_pbSparseEnd this)),
                 Ptr (m_pDevData (m_pbSparseIndex this)), Ptr (m_pDevData (m_pbSparseData this)),
                 Flag bSparseIgnoreZero]
            else
              return_kernel K ''kCalculateSparseDataScaledMarginalCrossEntropyError''
                [U32 position, U32 batch, U32 stride, Ptr pUnit,
                 Ptr (m_pDevData (m_pbSparseStart this)), Ptr (m_pDevData (m_pbSparseEnd this)),
                 Ptr (m_pDevData (m_pbSparseIndex this)), Ptr (m_pDevData (m_pbSparseData this)),
                 Flag bSparseIgnoreZero]))
      else
        shutdown_exit ''unsupported data format of this cost function'')"

text \<open>\<^verbatim>\<open>NNDataSet<T>::CalculateHingeError\<close>, lines 1081 to 1088 of the header.\<close>

definition CalculateHingeError ::
  "('f kernel_call \<Rightarrow> 'f) \<Rightarrow> Attributes \<Rightarrow> 'f NNDataSet \<Rightarrow> 32 word \<Rightarrow> 32 word \<Rightarrow> 32 word \<Rightarrow> addr
     \<Rightarrow> ('f, 'f) run" where
  "CalculateHingeError K E this position batch stride pUnit =
     (let pDataWeight = (if m_attributes this AND Weighted E \<noteq> 0 then m_pDevData (m_pbDataWeight this) else NULL) in
      if m_attributes this AND Indexed E \<noteq> 0 then
        return_kernel K ''kCalculateIndexedHingeError''
          [U32 position, U32 batch, U32 stride, Ptr pUnit, Ptr (m_pDevData (m_pbIndex this)),
           Ptr (m_pDevData (m_pbData this)), Ptr pDataWeight]
      else
        return_kernel K ''kCalculateHingeError''
          [U32 position, U32 batch, U32 stride, Ptr pUnit, Ptr (m_pDevData (m_pbData this)),
           Ptr pDataWeight])"

subsection \<open>Output-delta functions\<close>

text \<open>\<^verbatim>\<open>NNDataSet<T>::CalculateL1OutputDelta\<close>, lines 1090 to 1109 of the header.\<close>

definition CalculateL1OutputDelta ::
  "Attributes \<Rightarrow> 'f NNDataSet \<Rightarrow> Activation \<Rightarrow> 32 word \<Rightarrow> 32 word \<Rightarrow> 32 word \<Rightarrow> addr \<Rightarrow> addr
     \<Rightarrow> 'f \<Rightarrow> 'f \<Rightarrow> 'f \<Rightarrow> ('f, bool) run" where
  "CalculateL1OutputDelta E this activation position batch stride pUnit pDelta slope alpha lambda =
     (let pDataWeight = (if m_attributes this AND Weighted E \<noteq> 0 then m_pDevData (m_pbDataWeight this) else NULL) in
      if m_attributes this AND Sparse E \<noteq> 0 then
        (let bSparseIgnoreZero = (m_attributes this AND SparseIgnoreZero E \<noteq> 0) in
         if m_attributes this AND Indexed E \<noteq> 0 then
           kernel_return_true ''kCalculateIndexedSparseL1OutputDelta''
             [Act activation, U32 position, U32 batch, U32 stride, Ptr pUnit, Ptr pDelta,
              Ptr (m_pDevData (m_pbIndex this)), Ptr (m_pDevData (m_pbSparseStart this)),
              Ptr (m_pDevData (m_pbSparseEnd this)), Ptr (m_pDevData (m_pbSparseIndex this)),
              Ptr pDataWeight, Flag bSparseIgnoreZero, Flt slope, Flt alpha, Flt lambda]
         else
           kernel_return_true ''kCalculateSparseL1OutputDelta''
             [Act activation, U32 position, U32 batch, U32 stride, Ptr pUnit, Ptr pDelta,
              Ptr (m_pDevData (m_pbSparseStart this)), Ptr (m_pDevData (m_pbSparseEnd this)),
              Ptr (m_pDevData (m_pbSparseIndex this)), Ptr pDataWeight, Flag bSparseIgnoreZero,
              Flt slope, Flt alpha, Flt lambda])
      else
        (if m_attributes this AND Indexed E \<noteq> 0 then
           kernel_return_true ''kCalculateIndexedL1OutputDelta''
             [Act activation, U32 position, U32 batch, U32 stride, Ptr pUnit, Ptr pDelta,
              Ptr (m_pDevData (m_pbIndex this)), Ptr (m_pDevData (m_pbData this)),
              Ptr pDataWeight, Flt slope, Flt alpha, Flt lambda]
         else
           kernel_return_true ''kCalculateL1OutputDelta''
             [Act activation, U32 position, U32 batch, U32 stride, Ptr pUnit, Ptr pDelta,
              Ptr (m_pDevData (m_pbData this)), Ptr pDataWeight, Flt slope, Flt alpha,
              Flt lambda]))"



text \<open>\<^verbatim>\<open>NNDataSet<T>::CalculateOutputDelta\<close>, lines 1154 to 1182 of the header.\<close>

definition CalculateOutputDelta ::
  "Attributes \<Rightarrow> 'f NNDataSet \<Rightarrow> Activation \<Rightarrow> 32 word \<Rightarrow> 32 word \<Rightarrow> 32 word \<Rightarrow> addr \<Rightarrow> addr
     \<Rightarrow> 'f \<Rightarrow> 'f \<Rightarrow> 'f \<Rightarrow> ('f, bool) run" where
  "CalculateOutputDelta E this activation position batch stride pUnit pDelta slope alpha lambda =
     (let pDataWeight = (if m_attributes this AND Weighted E \<noteq> 0 then m_pDevData (m_pbDataWeight this) else NULL) in
      if m_attributes this AND Sparse E \<noteq> 0 then
        (let bSparseIgnoreZero = (m_attributes this AND SparseIgnoreZero E \<noteq> 0) in
         if m_attributes this AND Boolean E \<noteq> 0 then
           (if m_attributes this AND Indexed E \<noteq> 0 then
              kernel_return_true ''kCalculateIndexedSparseOutputDelta''
                [Act activation, U32 position, U32 batch, U32 stride, Ptr pUnit, Ptr pDelta,
                 Ptr (m_pDevData (m_pbIndex this)), Ptr (m_pDevData (m_pbSparseStart this)),
                 Ptr (m_pDevData (m_pbSparseEnd this)), Ptr (m_pDevData (m_pbSparseIndex this)),
                 Ptr pDataWeight, Flag bSparseIgnoreZero, Flt slope, Flt alpha, Flt lambda]
            else
              kernel_return_true ''kCalculateSparseOutputDelta''
                [Act activation, U32 position, U32 batch, U32 stride, Ptr pUnit, Ptr pDelta,
                 Ptr (m_pDevData (m_pbSparseStart this)), Ptr (m_pDevData (m_pbSparseEnd this)),
                 Ptr (m_pDevData (m_pbSparseIndex this)), Ptr pDataWeight, Flag bSparseIgnoreZero,
                 Flt slope, Flt alpha, Flt lambda])
         else
           (if m_attributes this AND Indexed E \<noteq> 0 then
              kernel_return_true ''kCalculateIndexedSparseAnalogOutputDelta''
                [Act activation, U32 position, U32 batch, U32 stride, Ptr pUnit, Ptr pDelta,
                 Ptr (m_pDevData (m_pbIndex this)), Ptr (m_pDevData (m_pbSparseStart this)),
                 Ptr (m_pDevData (m_pbSparseEnd this)), Ptr (m_pDevData (m_pbSparseIndex this)),
                 Ptr pDataWeight, Ptr (m_pDevData (m_pbSparseData this)), Flag bSparseIgnoreZero,
                 Flt slope, Flt alpha, Flt lambda]
            else
              kernel_return_true ''kCalculateSparseAnalogOutputDelta''
                [Act activation, U32 position, U32 batch, U32 stride, Ptr pUnit, Ptr pDelta,
                 Ptr (m_pDevData (m_pbSparseStart this)), Ptr (m_pDevData (m_pbSparseEnd this)),
                 Ptr (m_pDevData (m_pbSparseIndex this)), Ptr pDataWeight,
                 Ptr (m_pDevData (m_pbSparseData this)), Flag bSparseIgnoreZero, Flt slope,
                 Flt alpha, Flt lambda]))
      else
        (if m_attributes this AND Indexed E \<noteq> 0 then
           kernel_return_true ''kCalculateIndexedOutputDelta''
             [Act activation, U32 position, U32 batch, U32 stride, Ptr pUnit, Ptr pDelta,
              Ptr (m_pDevData (m_pbIndex this)), Ptr (m_pDevData (m_pbData this)),
              Ptr pDataWeight, Flt slope, Flt alpha, Flt lambda]
         else
           kernel_return_true ''kCalculateOutputDelta''
             [Act activation, U32 position, U32 batch, U32 stride, Ptr pUnit, Ptr pDelta,
              Ptr (m_pDevData (m_pbData this)), Ptr pDataWeight, Flt slope, Flt alpha,
              Flt lambda]))"

text \<open>\<^verbatim>\<open>NNDataSet<T>::CalculateL2HingeOutputDelta\<close>, lines 1185 to 1213 of the header.\<close>

definition CalculateL2HingeOutputDelta ::
  "Attributes \<Rightarrow> 'f NNDataSet \<Rightarrow> Activation \<Rightarrow> 32 word \<Rightarrow> 32 word \<Rightarrow> 32 word \<Rightarrow> addr \<Rightarrow> addr
     \<Rightarrow> 'f \<Rightarrow> 'f \<Rightarrow> 'f \<Rightarrow> ('f, bool) run" where
  "CalculateL2HingeOutputDelta E this activation position batch stride pUnit pDelta slope alpha lambda =
     (let pDataWeight = (if m_attributes this AND Weighted E \<noteq> 0 then m_pDevData (m_pbDataWeight this) else NULL) in
      if m_attributes this AND Sparse E \<noteq> 0 then
        (let bSparseIgnoreZero = (m_attributes this AND SparseIgnoreZero E \<noteq> 0) in
         if m_attributes this AND Boolean E \<noteq> 0 then
           (if m_attributes this AND Indexed E \<noteq> 0 then
              kernel_return_true ''kCalculateIndexedSparseL2HingeOutputDelta''
                [Act activation, U32 position, U32 batch, U32 stride, Ptr pUnit, Ptr pDelta,
                 Ptr (m_pDevData (m_pbIndex this)), Ptr (m_pDevData (m_pbSparseStart this)),
                 Ptr (m_pDevData (m_pbSparseEnd this)), Ptr (m_pDevData (m_pbSparseIndex this)),
                 Ptr pDataWeight, Flag bSparseIgnoreZero, Flt slope, Flt alpha, Flt lambda]
            else
              kernel_return_true ''kCalculateSparseL2HingeOutputDelta''
                [Act activation, U32 position, U32 batch, U32 stride, Ptr pUnit, Ptr pDelta,
                 Ptr (m_pDevData (m_pbSparseStart this)), Ptr (m_pDevData (m_pbSparseEnd this)),
                 Ptr (m_pDevData (m_pbSparseIndex this)), Ptr pDataWeight, Flag bSparseIgnoreZero,
                 Flt slope, Flt alpha, Flt lambda])
         else
           (if m_attributes this AND Indexed E \<noteq> 0 then
              kernel_return_true ''kCalculateIndexedSparseAnalogL2HingeOutputDelta''
                [Act activation, U32 position, U32 batch, U32 stride, Ptr pUnit, Ptr pDelta,
                 Ptr (m_pDevData (m_pbIndex this)), Ptr (m_pDevData (m_pbSparseStart this)),
                 Ptr (m_pDevData (m_pbSparseEnd this)), Ptr (m_pDevData (m_pbSparseIndex this)),
                 Ptr pDataWeight, Ptr (m_pDevData (m_pbSparseData this)), Flag bSparseIgnoreZero,
                 Flt slope, Flt alpha, Flt lambda]
            else
              kernel_return_true ''kCalculateSparseAnalogL2HingeOutputDelta''
                [Act activation, U32 position, U32 batch, U32 stride, Ptr pUnit, Ptr pDelta,
                 Ptr (m_pDevData (m_pbSparseStart this)), Ptr (m_pDevData (m_pbSparseEnd this)),
                 Ptr (m_pDevData (m_pbSparseIndex this)), Ptr pDataWeight,
                 Ptr (m_pDevData (m_pbSparseData this)), Flag bSparseIgnoreZero, Flt slope,
                 Flt alpha, Flt lambda]))
      else
        (if m_attributes this AND Indexed E \<noteq> 0 then
           kernel_return_true ''kCalculateIndexedL2HingeOutputDelta''
             [Act activation, U32 position, U32 batch, U32 stride, Ptr pUnit, Ptr pDelta,
              Ptr (m_pDevData (m_pbIndex this)), Ptr (m_pDevData (m_pbData this)),
              Ptr pDataWeight, Flt slope, Flt alpha, Flt lambda]
         else
           kernel_return_true ''kCalculateL2HingeOutputDelta''
             [Act activation, U32 position, U32 batch, U32 stride, Ptr pUnit, Ptr pDelta,
              Ptr (m_pDevData (m_pbData this)), Ptr pDataWeight, Flt slope, Flt alpha,
              Flt lambda]))"

text \<open>\<^verbatim>\<open>NNDataSet<T>::CalculateDataScaledMarginalCrossEntropyOutputDelta\<close>, lines 1215 to 1241 of the header.\<close>

definition CalculateDataScaledMarginalCrossEntropyOutputDelta ::
  "Attributes \<Rightarrow> 'f NNDataSet \<Rightarrow> Activation \<Rightarrow> 32 word \<Rightarrow> 32 word \<Rightarrow> 32 word \<Rightarrow> addr \<Rightarrow> addr
     \<Rightarrow> ('f, bool) run" where
  "CalculateDataScaledMarginalCrossEntropyOutputDelta E this activation position batch stride pUnit pDelta =
     (if m_attributes this AND Sparse E \<noteq> 0 then
        (let bSparseIgnoreZero = (m_attributes this AND SparseIgnoreZero E \<noteq> 0) in
         if m_attributes this AND Indexed E \<noteq> 0 then
           kernel_return_true ''kCalculateIndexedSparseDataScaledMarginalCrossEntropyOutputDelta''
             [Act activation, U32 position, U32 batch, U32 stride, Ptr pUnit, Ptr pDelta,
              Ptr (m_pDevData (m_pbIndex this)), Ptr (m_pDevData (m_pbSparseStart this)),
              Ptr (m_pDevData (m_pbSparseEnd this)), Ptr (m_pDevData (m_pbSparseIndex this)),
              Ptr (m_pDevData (m_pbSparseData this)), Flag bSparseIgnoreZero]
         else
           kernel_return_true ''kCalculateSparseDataScaledMarginalCrossEntropyOutputDelta''
             [Act activation, U32 position, U32 batch, U32 stride, Ptr pUnit, Ptr pDelta,
              Ptr (m_pDevData (m_pbSparseStart this)), Ptr (m_pDevData (m_pbSparseEnd this)),
              Ptr (m_pDevData (m_pbSparseIndex this)), Ptr (m_pDevData (m_pbSparseData this)),
              Flag bSparseIgnoreZero])
      else
        shutdown_exit ''unsupported data format of this cost function'')"

text \<open>\<^verbatim>\<open>NNDataSet<T>::CalculateHingeOutputDelta\<close>, lines 1243 to 1251 of the header.\<close>

definition CalculateHingeOutputDelta ::
  "Attributes \<Rightarrow> 'f NNDataSet \<Rightarrow> Activation \<Rightarrow> 32 word \<Rightarrow> 32 word \<Rightarrow> 32 word \<Rightarrow> addr \<Rightarrow> addr
     \<Rightarrow> ('f, bool) run" where
  "CalculateHingeOutputDelta E this activation position batch stride pUnit pDelta =
     (let pDataWeight = (if m_attributes this AND Weighted E \<noteq> 0 then m_pDevData (m_pbDataWeight this) else NULL) in
      if m_attributes this AND Indexed E \<noteq> 0 then
        kernel_return_true ''kCalculateIndexedHingeOutputDelta''
          [Act activation, U32 position, U32 batch, U32 stride, Ptr pUnit, Ptr pDelta,
           Ptr (m_pDevData (m_pbIndex this)), Ptr (m_pDevData (m_pbData this)),
           Ptr pDataWeight]
      else
        kernel_return_true ''kCalculateHingeOutputDelta''
          [Act activation, U32 position, U32 batch, U32 stride, Ptr pUnit, Ptr pDelta,
           Ptr (m_pDevData (m_pbData this)), Ptr pDataWeight])"

subsection \<open>Observing a run\<close>

text \<open>The kernel calls among the events of a run, in order.\<close>

fun kernel_calls :: "'f event list \<Rightarrow> 'f kernel_call list" where
  "kernel_calls [] = []"
| "kernel_calls (Kernel c # es) = c # kernel_calls es"
| "kernel_calls (e # es) = kernel_calls es"

text \<open>
  The run consists of the launch of one kernel and nothing else, and the function
  returns to its caller.
\<close>

definition one_kernel :: "('f, 'r) run \<Rightarrow> bool" where
  "one_kernel r \<longleftrightarrow> (case events r of [Kernel c] \<Rightarrow> returned r \<noteq> None | _ \<Rightarrow> False)"

text \<open>The names of the kernels a run invokes.\<close>

definition kernels_of :: "('f, 'r) run \<Rightarrow> string list" where
  "kernels_of r = map fst (kernel_calls (events r))"

text \<open>The argument lists of the kernels a run invokes.\<close>

definition arguments_of :: "('f, 'r) run \<Rightarrow> 'f arg list list" where
  "arguments_of r = map snd (kernel_calls (events r))"

text \<open>The device pointer \<open>p\<close> is an argument of every kernel the run invokes.\<close>

definition passes :: "addr \<Rightarrow> ('f, 'r) run \<Rightarrow> bool" where
  "passes p r \<longleftrightarrow> list_all (\<lambda>args. Ptr p \<in> set args) (arguments_of r)"


fun floats :: "'f arg list \<Rightarrow> 'f list" where
  "floats [] = []"
| "floats (Flt x # as) = x # floats as"
| "floats (a # as) = floats as"




subsection \<open>The sparse error kernels\<close>

text \<open>\<^verbatim>\<open>enum ErrorFunction\<close>, lines 78 to 87 of the header.\<close>

datatype ErrorFunction =
  L1 | L2 | CrossEntropy | ScaledMarginalCrossEntropy | DataScaledMarginalCrossEntropy | Hinge
  | L2Hinge













text \<open>A kernel library for the concrete instances: every kernel returns 0.\<close>

definition kernels0 :: "real kernel_call \<Rightarrow> real" where
  "kernels0 c = 0"

text \<open>
  A dataset for the concrete instances: every buffer at its own device address, no
  attribute bit set, two example weights.
\<close>

definition dataset0 :: "real NNDataSet" where
  "dataset0 =
     \<lparr> m_attributes = 0,
       m_pbSparseStart = \<lparr> m_pDevData = 100 \<rparr>,
       m_pbSparseEnd = \<lparr> m_pDevData = 200 \<rparr>,
       m_pbSparseIndex = \<lparr> m_pDevData = 300 \<rparr>,
       m_vDataWeight = [1, 2],
       m_pbDataWeight = \<lparr> m_pDevData = 400 \<rparr>,
       m_pbIndex = \<lparr> m_pDevData = 500 \<rparr>,
       m_pbDenoisingRandom = \<lparr> m_pDevData = 600 \<rparr>,
       m_pbSparseTransposedStart = \<lparr> m_pDevData = 700 \<rparr>,
       m_pbSparseTransposedEnd = \<lparr> m_pDevData = 800 \<rparr>,
       m_pbSparseTransposedIndex = \<lparr> m_pDevData = 900 \<rparr>,
       m_pbSparseTransposedData = \<lparr> m_pDevData = 1000 \<rparr>,
       m_bDirty = False,
       m_batch = 512,
       m_pbData = \<lparr> m_pDevData = 1100 \<rparr>,
       m_pbSparseData = \<lparr> m_pDevData = 1200 \<rparr> \<rparr>"

text \<open>Modelled from the spec: the member \<^verbatim>\<open>GenerateSparseTransposedMatrix\<close> is defined
  outside the header. Section 5 of the spec says that a rebuild ends with the dirty flag
  cleared and the batch size recorded. Only the concrete instances use this stand-in; the
  theorems hold for every effect \<open>G\<close>.
\<close>

definition generate0 :: "32 word \<Rightarrow> addr \<Rightarrow> real NNDataSet \<Rightarrow> real NNDataSet" where
  "generate0 batch pLayer this = this\<lparr>m_bDirty := False, m_batch := batch\<rparr>"

text \<open>A descriptor for the concrete instances: a dense dataset of 10 examples of width 128.\<close>

definition descriptor0 :: "(unit, real) NNDataSetDescriptor" where
  "descriptor0 =
     \<lparr> descriptor_name = ''input'',
       descriptor_dataType = (),
       descriptor_attributes = 0,
       descriptor_dim = \<lparr> dimensions = 1, width = 128, height = 1, length_z = 1 \<rparr>,
       descriptor_examples = 10,
       descriptor_sparseDensity = 0 \<rparr>"




section \<open>Validation\<close>

lemma fold_zero_masks:
  "fold (\<lambda>mask attributes. if attributes AND mask \<noteq> 0 then attributes - mask else attributes)
     (replicate n (0 :: 32 word)) a = a"
  by (induction n) simp_all

lemma isSupported_iff: "isSupported E attributes \<longleftrightarrow> attributes = 0"
  unfolding isSupported_def SUPPORTED_ATTRIBUTES_def fold_zero_masks by (rule refl)

text \<open>
  C2. \<open>isSupported\<close> accepts the attribute word 0 and no other: every mask of the
  sized vector is zero, so no bit is ever removed; in particular the word with only the
  Sparse bit is refused.
\<close>

theorem C2_isSupported_only_zero:
  "(isSupported E attributes \<longleftrightarrow> attributes = 0)
   \<and> (\<forall>mask \<in> set (SUPPORTED_ATTRIBUTES E). mask = 0)
   \<and> (Sparse E \<noteq> 0 \<longrightarrow> \<not> isSupported E (Sparse E))"
  by (simp add: isSupported_iff SUPPORTED_ATTRIBUTES_def)

theorem C2_isSupported_only_zero_witness:
  "Sparse NNDataSetEnums \<noteq> 0
   \<and> SUPPORTED_ATTRIBUTES NNDataSetEnums = [0]
   \<and> \<not> isSupported NNDataSetEnums (Sparse NNDataSetEnums)
   \<and> isSupported NNDataSetEnums 0"
  using C2_isSupported_only_zero [of NNDataSetEnums "Sparse NNDataSetEnums"]
    C2_isSupported_only_zero [of NNDataSetEnums 0]
  by (simp add: NNDataSetEnums_def SUPPORTED_ATTRIBUTES_def)

text \<open>
  C1, as amended. \<open>createNNDataSet\<close> fails, with no object returned, whenever the
  attribute word of the descriptor has a bit other than the Sparse bit, the Indexed and
  the Weighted bit included; the descriptor with no attribute bit is accepted. (What
  happens to the word with only the Sparse bit is C2.)
\<close>

theorem C1_only_the_empty_attribute_word_passes:
  "(descriptor_attributes descriptor AND NOT (Sparse E) \<noteq> 0 \<longrightarrow>
      createNNDataSet E descriptor
      = Inl (Unsupported_attributes (descriptor_attributes descriptor) (descriptor_name descriptor)))
   \<and> (descriptor_attributes descriptor = 0 \<longrightarrow>
      createNNDataSet E descriptor = Inr (New_NNDataSet descriptor))"
  by (auto simp add: createNNDataSet_def isSupported_iff)

theorem C1_only_the_empty_attribute_word_passes_witness:
  "descriptor_attributes (descriptor0\<lparr>descriptor_attributes := 192\<rparr>) AND NOT (Sparse NNDataSetEnums) \<noteq> 0
   \<and> createNNDataSet NNDataSetEnums (descriptor0\<lparr>descriptor_attributes := 192\<rparr>)
     = Inl (Unsupported_attributes 192 ''input'')
   \<and> descriptor_attributes descriptor0 = 0
   \<and> createNNDataSet NNDataSetEnums descriptor0 = Inr (New_NNDataSet descriptor0)"
proof -
  have a: "descriptor_attributes (descriptor0\<lparr>descriptor_attributes := 192\<rparr>)
             AND NOT (Sparse NNDataSetEnums) \<noteq> 0"
    by (simp add: NNDataSetEnums_def)
  have b: "descriptor_attributes descriptor0 = 0"
    by (simp add: descriptor0_def)
  show ?thesis
    using a b
      C1_only_the_empty_attribute_word_passes [of "descriptor0\<lparr>descriptor_attributes := 192\<rparr>"
        NNDataSetEnums]
      C1_only_the_empty_attribute_word_passes [of descriptor0 NNDataSetEnums]
    by (simp add: descriptor0_def)
qed

text \<open>
  The claim as stated fails at a descriptor whose only attribute is Indexed: no bit is
  outside Sparse, Indexed and Weighted, and the factory refuses it.
\<close>

theorem C1_indexed_descriptor_is_refused:
  "descriptor_attributes (descriptor0\<lparr>descriptor_attributes := 64\<rparr>)
     AND NOT (Sparse NNDataSetEnums OR Indexed NNDataSetEnums OR Weighted NNDataSetEnums) = 0
   \<and> createNNDataSet NNDataSetEnums (descriptor0\<lparr>descriptor_attributes := 64\<rparr>)
     = Inl (Unsupported_attributes 64 ''input'')"
  by (simp add: createNNDataSet_def isSupported_iff NNDataSetEnums_def descriptor0_def)

section \<open>Routing of the dispatchers\<close>

lemmas run_defs = return_kernel_def kernel_return_true_def shutdown_exit_def launch_def Let_def

lemmas observe_defs = one_kernel_def kernels_of_def arguments_of_def passes_def

subsection \<open>One kernel per call, chosen by the layout bits\<close>

















lemma DataScaledMarginalCrossEntropyError_dense:
  "m_attributes this AND Sparse E = 0 \<Longrightarrow>
   CalculateDataScaledMarginalCrossEntropyError K E this position batch stride pUnit
   = shutdown_exit ''unsupported data format of this cost function''"
  by (simp add: CalculateDataScaledMarginalCrossEntropyError_def Let_def)



lemma DataScaledMarginalCrossEntropyOutputDelta_dense:
  "m_attributes this AND Sparse E = 0 \<Longrightarrow>
   CalculateDataScaledMarginalCrossEntropyOutputDelta E this activation position batch stride pUnit pDelta
   = shutdown_exit ''unsupported data format of this cost function''"
  by (simp add: CalculateDataScaledMarginalCrossEntropyOutputDelta_def Let_def)




section \<open>Cost functions on the wrong kind of dataset\<close>

text \<open>
  C4. On a dataset without the Sparse bit, \<open>CalculateDataScaledMarginalCrossEntropyError\<close>
  and \<open>CalculateDataScaledMarginalCrossEntropyOutputDelta\<close> write the message to
  \<^verbatim>\<open>cout\<close>, shut the device down and call \<^verbatim>\<open>exit(-1)\<close>: no kernel is launched and
  nothing is returned.
\<close>

theorem C4_data_scaled_on_dense_is_fatal:
  assumes "m_attributes this AND Sparse E = 0"
  shows
   "CalculateDataScaledMarginalCrossEntropyError K E this position batch stride pUnit
    = \<lparr> events = [Cout ''unsupported data format of this cost function'', GpuShutdown, Exit (- 1)],
        returned = None \<rparr>
    \<and> CalculateDataScaledMarginalCrossEntropyOutputDelta E this activation position batch stride
        pUnit pDelta
    = \<lparr> events = [Cout ''unsupported data format of this cost function'', GpuShutdown, Exit (- 1)],
        returned = None \<rparr>"
  using assms
  by (simp add: DataScaledMarginalCrossEntropyError_dense
      DataScaledMarginalCrossEntropyOutputDelta_dense shutdown_exit_def)

theorem C4_data_scaled_on_dense_is_fatal_witness:
  "m_attributes dataset0 AND Sparse NNDataSetEnums = 0
   \<and> returned (CalculateDataScaledMarginalCrossEntropyError kernels0 NNDataSetEnums dataset0 0 512 128 42)
     = None
   \<and> events (CalculateDataScaledMarginalCrossEntropyError kernels0 NNDataSetEnums dataset0 0 512 128 42)
     = [Cout ''unsupported data format of this cost function'', GpuShutdown, Exit (- 1)]
   \<and> returned
       (CalculateDataScaledMarginalCrossEntropyOutputDelta NNDataSetEnums dataset0 Tanh 0 512 128 42 43)
     = None"
proof -
  have dense: "m_attributes dataset0 AND Sparse NNDataSetEnums = 0"
    by (simp add: dataset0_def)
  show ?thesis
    using dense C4_data_scaled_on_dense_is_fatal [OF dense, of kernels0 0 512 128 42 Tanh 43]
    by simp
qed

text \<open>
  C5 does not hold of the code. \<open>CalculateHingeError\<close> and \<open>CalculateHingeOutputDelta\<close>
  never read the Sparse bit: what they do depends on the attribute word only through the
  tests of the Indexed and the Weighted bit. A dataset with the Sparse bit is therefore
  taken down the path of the dense dataset with the same members, to the dense hinge
  kernel on \<^verbatim>\<open>_pbData\<close>; there is no rejecting branch like the one of the data-scaled
  functions. (A sparse dataset holds no dense buffer, and evaluating
  \<^verbatim>\<open>_pbData->_pDevData\<close> on it is undefined in the source language; the record of
  members does not express that.)
\<close>

theorem C5_hinge_never_reads_the_sparse_bit:
  assumes "(a AND Indexed E \<noteq> 0) = (a' AND Indexed E \<noteq> 0)"
    and "(a AND Weighted E \<noteq> 0) = (a' AND Weighted E \<noteq> 0)"
  shows
   "CalculateHingeError K E (this\<lparr>m_attributes := a\<rparr>) position batch stride pUnit
    = CalculateHingeError K E (this\<lparr>m_attributes := a'\<rparr>) position batch stride pUnit
    \<and> CalculateHingeOutputDelta E (this\<lparr>m_attributes := a\<rparr>) activation position batch stride
        pUnit pDelta
    = CalculateHingeOutputDelta E (this\<lparr>m_attributes := a'\<rparr>) activation position batch stride
        pUnit pDelta"
  using assms
  by (simp add: CalculateHingeError_def CalculateHingeOutputDelta_def run_defs)

text \<open>
  At the failing input, the attribute word with only the Sparse bit: the run is the run
  on the attribute word 0, the dense dataset.
\<close>

theorem C5_hinge_never_reads_the_sparse_bit_witness:
  "((1 :: 32 word) AND Indexed NNDataSetEnums \<noteq> 0) = ((0 :: 32 word) AND Indexed NNDataSetEnums \<noteq> 0)
   \<and> ((1 :: 32 word) AND Weighted NNDataSetEnums \<noteq> 0) = ((0 :: 32 word) AND Weighted NNDataSetEnums \<noteq> 0)
   \<and> (1 :: 32 word) AND Sparse NNDataSetEnums \<noteq> 0
   \<and> CalculateHingeError kernels0 NNDataSetEnums (dataset0\<lparr>m_attributes := 1\<rparr>) 0 512 128 42
     = CalculateHingeError kernels0 NNDataSetEnums (dataset0\<lparr>m_attributes := 0\<rparr>) 0 512 128 42
   \<and> CalculateHingeOutputDelta NNDataSetEnums (dataset0\<lparr>m_attributes := 1\<rparr>) Sigmoid 0 512 128 42 43
     = CalculateHingeOutputDelta NNDataSetEnums (dataset0\<lparr>m_attributes := 0\<rparr>) Sigmoid 0 512 128 42 43"
proof -
  have i: "((1 :: 32 word) AND Indexed NNDataSetEnums \<noteq> 0)
           = ((0 :: 32 word) AND Indexed NNDataSetEnums \<noteq> 0)"
    by (simp add: NNDataSetEnums_def)
  have w: "((1 :: 32 word) AND Weighted NNDataSetEnums \<noteq> 0)
           = ((0 :: 32 word) AND Weighted NNDataSetEnums \<noteq> 0)"
    by (simp add: NNDataSetEnums_def)
  have s: "(1 :: 32 word) AND Sparse NNDataSetEnums \<noteq> 0"
    by (simp add: NNDataSetEnums_def)
  show ?thesis
    using i w s
      C5_hinge_never_reads_the_sparse_bit [OF i w, where K = kernels0 and this = dataset0
        and position = 0 and batch = 512 and stride = 128 and pUnit = 42
        and activation = Sigmoid and pDelta = 43]
    by simp
qed

section \<open>Sparse transposition\<close>


lemma CalculateSparseTransposedMatrix_shape:
  "\<exists>k args. CalculateSparseTransposedMatrix G E this_entry position batch pLayer
     = (\<lparr> events =
            (if m_bDirty this_entry \<or> batch \<noteq> m_batch this_entry
             then [Call_GenerateSparseTransposedMatrix batch pLayer] else [])
            @ [GpuBuffer_Copy
                 (m_pDevData (m_pbSparseTransposedEnd
                    (if m_bDirty this_entry \<or> batch \<noteq> m_batch this_entry then G batch pLayer this_entry else this_entry)))
                 (m_pDevData (m_pbSparseTransposedStart
                    (if m_bDirty this_entry \<or> batch \<noteq> m_batch this_entry then G batch pLayer this_entry else this_entry))),
               Kernel (k, args)],
          returned = Some True \<rparr>,
        if m_bDirty this_entry \<or> batch \<noteq> m_batch this_entry then G batch pLayer this_entry else this_entry)
     \<and> Ptr (m_pDevData (m_pbSparseTransposedEnd
               (if m_bDirty this_entry \<or> batch \<noteq> m_batch this_entry then G batch pLayer this_entry else this_entry)))
         \<in> set args"
  by (simp add: CalculateSparseTransposedMatrix_def run_defs)

lemma CalculateSparseTransposedDenoisedMatrix_shape:
  "\<exists>k args. CalculateSparseTransposedDenoisedMatrix G E this_entry position batch pLayer
     = (\<lparr> events =
            (if m_bDirty this_entry \<or> batch \<noteq> m_batch this_entry
             then [Call_GenerateSparseTransposedMatrix batch pLayer] else [])
            @ [GpuBuffer_Copy
                 (m_pDevData (m_pbSparseTransposedEnd
                    (if m_bDirty this_entry \<or> batch \<noteq> m_batch this_entry then G batch pLayer this_entry else this_entry)))
                 (m_pDevData (m_pbSparseTransposedStart
                    (if m_bDirty this_entry \<or> batch \<noteq> m_batch this_entry then G batch pLayer this_entry else this_entry))),
               Kernel (k, args)],
          returned = Some True \<rparr>,
        if m_bDirty this_entry \<or> batch \<noteq> m_batch this_entry then G batch pLayer this_entry else this_entry)
     \<and> Ptr (m_pDevData (m_pbSparseTransposedEnd
               (if m_bDirty this_entry \<or> batch \<noteq> m_batch this_entry then G batch pLayer this_entry else this_entry)))
         \<in> set args"
  by (simp add: CalculateSparseTransposedDenoisedMatrix_def run_defs)


text \<open>
  C6. In \<open>CalculateSparseTransposedMatrix\<close> and \<open>CalculateSparseTransposedDenoisedMatrix\<close>
  the member \<open>GenerateSparseTransposedMatrix\<close> is called if and only if the dirty flag is
  set or the batch differs from the recorded one, and it comes first. In every call the
  events end with the copy of the transposed start offsets into the transposed end
  offsets followed by exactly one kernel launch, which receives the end offsets; the
  function returns \<^verbatim>\<open>true\<close>.
\<close>

theorem C6_rebuild_when_stale_then_reset_and_append:
  assumes "rebuild = (m_bDirty this_entry \<or> batch \<noteq> m_batch this_entry)"
    and "this = (if rebuild then G batch pLayer this_entry else this_entry)"
    and "f = CalculateSparseTransposedMatrix \<or> f = CalculateSparseTransposedDenoisedMatrix"
    and "r = fst (f G E this_entry position batch pLayer)"
  shows
   "snd (f G E this_entry position batch pLayer) = this
    \<and> (Call_GenerateSparseTransposedMatrix batch pLayer \<in> set (events r) \<longleftrightarrow> rebuild)
    \<and> events r
      = (if rebuild then [Call_GenerateSparseTransposedMatrix batch pLayer] else [])
        @ [GpuBuffer_Copy (m_pDevData (m_pbSparseTransposedEnd this))
             (m_pDevData (m_pbSparseTransposedStart this))]
        @ map Kernel (kernel_calls (events r))
    \<and> length (kernel_calls (events r)) = 1
    \<and> passes (m_pDevData (m_pbSparseTransposedEnd this)) r
    \<and> returned r = Some True"
proof -
  obtain k args where shape:
    "f G E this_entry position batch pLayer
     = (\<lparr> events =
            (if rebuild then [Call_GenerateSparseTransposedMatrix batch pLayer] else [])
            @ [GpuBuffer_Copy (m_pDevData (m_pbSparseTransposedEnd this))
                 (m_pDevData (m_pbSparseTransposedStart this)),
               Kernel (k, args)],
          returned = Some True \<rparr>, this)"
    and end_passed: "Ptr (m_pDevData (m_pbSparseTransposedEnd this)) \<in> set args"
    using assms(3) CalculateSparseTransposedMatrix_shape [of G E this_entry position batch pLayer]
      CalculateSparseTransposedDenoisedMatrix_shape [of G E this_entry position batch pLayer]
    unfolding assms(1,2) by blast
  show ?thesis
    unfolding assms(4) shape using end_passed
    by (cases rebuild) (simp_all add: observe_defs)
qed


theorem C6_rebuild_when_stale_then_reset_and_append_witness:
  "(m_bDirty (dataset0\<lparr>m_attributes := 3\<rparr>) \<or> 256 \<noteq> m_batch (dataset0\<lparr>m_attributes := 3\<rparr>))
   \<and> snd (CalculateSparseTransposedMatrix generate0 NNDataSetEnums (dataset0\<lparr>m_attributes := 3\<rparr>)
         0 256 7)
     = dataset0\<lparr>m_attributes := 3, m_bDirty := False, m_batch := 256\<rparr>
   \<and> Call_GenerateSparseTransposedMatrix 256 7
     \<in> set (events (fst (CalculateSparseTransposedMatrix generate0 NNDataSetEnums
                (dataset0\<lparr>m_attributes := 3\<rparr>) 0 256 7)))
   \<and> length (kernel_calls (events (fst (CalculateSparseTransposedMatrix generate0 NNDataSetEnums
                (dataset0\<lparr>m_attributes := 3\<rparr>) 0 256 7)))) = 1
   \<and> Call_GenerateSparseTransposedMatrix 512 7
     \<notin> set (events (fst (CalculateSparseTransposedDenoisedMatrix generate0 NNDataSetEnums
                (dataset0\<lparr>m_attributes := 3\<rparr>) 0 512 7)))"
  using
    C6_rebuild_when_stale_then_reset_and_append [OF refl refl disjI1 refl,
      where this_entry = "dataset0\<lparr>m_attributes := 3\<rparr>" and batch = 256 and G = generate0
        and pLayer = 7 and E = NNDataSetEnums and position = 0]
    C6_rebuild_when_stale_then_reset_and_append [OF refl refl disjI2 refl,
      where this_entry = "dataset0\<lparr>m_attributes := 3\<rparr>" and batch = 512 and G = generate0
        and pLayer = 7 and E = NNDataSetEnums and position = 0]
  by (simp add: dataset0_def generate0_def)

section \<open>Arguments handed to the kernels\<close>
















lemma L1OutputDelta_forwards:
  "one_kernel (CalculateL1OutputDelta E this activation position batch stride pUnit pDelta slope alpha lambda)
   \<and> map floats (arguments_of (CalculateL1OutputDelta E this activation position batch stride pUnit pDelta slope alpha lambda))
     = [[slope, alpha, lambda]]"
  by (simp add: CalculateL1OutputDelta_def observe_defs run_defs)

lemma OutputDelta_forwards:
  "one_kernel (CalculateOutputDelta E this activation position batch stride pUnit pDelta slope alpha lambda)
   \<and> map floats (arguments_of (CalculateOutputDelta E this activation position batch stride pUnit pDelta slope alpha lambda))
     = [[slope, alpha, lambda]]"
  by (simp add: CalculateOutputDelta_def observe_defs run_defs)

lemma L2HingeOutputDelta_forwards:
  "one_kernel (CalculateL2HingeOutputDelta E this activation position batch stride pUnit pDelta slope alpha lambda)
   \<and> map floats (arguments_of (CalculateL2HingeOutputDelta E this activation position batch stride pUnit pDelta slope alpha lambda))
     = [[slope, alpha, lambda]]"
  by (simp add: CalculateL2HingeOutputDelta_def observe_defs run_defs)

text \<open>
  C8. For every attribute word, each output-delta dispatcher that receives \<open>slope\<close>,
  \<open>alpha\<close> and \<open>lambda\<close> (\<open>CalculateL1OutputDelta\<close>, \<open>CalculateOutputDelta\<close>,
  \<open>CalculateL2HingeOutputDelta\<close>) launches one kernel whose \<^verbatim>\<open>NNFloat\<close> arguments are
  exactly these three values, in this order.
\<close>

theorem C8_slope_alpha_lambda_forwarded:
  "one_kernel (CalculateL1OutputDelta E this activation position batch stride pUnit pDelta slope alpha lambda)
   \<and> map floats (arguments_of (CalculateL1OutputDelta E this activation position batch stride pUnit pDelta slope alpha lambda))
     = [[slope, alpha, lambda]]
   \<and> one_kernel (CalculateOutputDelta E this activation position batch stride pUnit pDelta slope alpha lambda)
   \<and> map floats (arguments_of (CalculateOutputDelta E this activation position batch stride pUnit pDelta slope alpha lambda))
     = [[slope, alpha, lambda]]
   \<and> one_kernel (CalculateL2HingeOutputDelta E this activation position batch stride pUnit pDelta slope alpha lambda)
   \<and> map floats (arguments_of (CalculateL2HingeOutputDelta E this activation position batch stride pUnit pDelta slope alpha lambda))
     = [[slope, alpha, lambda]]"
  using L1OutputDelta_forwards [of E this activation position batch stride pUnit pDelta slope alpha lambda] OutputDelta_forwards [of E this activation position batch stride pUnit pDelta slope alpha lambda] L2HingeOutputDelta_forwards [of E this activation position batch stride pUnit pDelta slope alpha lambda]
  by simp

theorem C8_slope_alpha_lambda_forwarded_witness:
  "map floats (arguments_of
      (CalculateOutputDelta NNDataSetEnums (dataset0\<lparr>m_attributes := 67\<rparr>) LeakyRectifiedLinear
         0 512 128 42 43 (1 / 100) 2 3))
   = [[1 / 100, 2, 3]]
   \<and> kernels_of
       (CalculateOutputDelta NNDataSetEnums (dataset0\<lparr>m_attributes := 67\<rparr>) LeakyRectifiedLinear
          0 512 128 42 43 (1 / 100) 2 3)
     = [''kCalculateIndexedSparseOutputDelta'']"
  using C8_slope_alpha_lambda_forwarded [of NNDataSetEnums "dataset0\<lparr>m_attributes := 67\<rparr>"
      LeakyRectifiedLinear 0 512 128 42 43 "1 / 100" 2 3]
  by (simp add: CalculateOutputDelta_def NNDataSetEnums_def kernels_of_def run_defs)

section \<open>The data-scaled marginal cross-entropy path\<close>

text \<open>
  C9. On a dataset with the Sparse and the Boolean bit,
  \<open>CalculateDataScaledMarginalCrossEntropyError\<close> does what
  \<open>CalculateScaledMarginalCrossEntropyError\<close> does: the same kernel with the same
  arguments, and so the same value returned.
\<close>

theorem C9_data_scaled_is_scaled_on_boolean:
  assumes "m_attributes this AND Sparse E \<noteq> 0"
    and "m_attributes this AND Boolean E \<noteq> 0"
  shows
   "CalculateDataScaledMarginalCrossEntropyError K E this position batch stride pUnit
    = CalculateScaledMarginalCrossEntropyError K E this position batch stride pUnit"
  using assms
  by (simp add: CalculateDataScaledMarginalCrossEntropyError_def
      CalculateScaledMarginalCrossEntropyError_def run_defs)

theorem C9_data_scaled_is_scaled_on_boolean_witness:
  "m_attributes (dataset0\<lparr>m_attributes := 3\<rparr>) AND Sparse NNDataSetEnums \<noteq> 0
   \<and> m_attributes (dataset0\<lparr>m_attributes := 3\<rparr>) AND Boolean NNDataSetEnums \<noteq> 0
   \<and> CalculateDataScaledMarginalCrossEntropyError kernels0 NNDataSetEnums
       (dataset0\<lparr>m_attributes := 3\<rparr>) 0 512 128 42
     = CalculateScaledMarginalCrossEntropyError kernels0 NNDataSetEnums
         (dataset0\<lparr>m_attributes := 3\<rparr>) 0 512 128 42
   \<and> kernels_of (CalculateScaledMarginalCrossEntropyError kernels0 NNDataSetEnums
       (dataset0\<lparr>m_attributes := 3\<rparr>) 0 512 128 42)
     = [''kCalculateSparseScaledMarginalCrossEntropyError'']"
proof -
  have s: "m_attributes (dataset0\<lparr>m_attributes := 3\<rparr>) AND Sparse NNDataSetEnums \<noteq> 0"
    by (simp add: NNDataSetEnums_def)
  have b: "m_attributes (dataset0\<lparr>m_attributes := 3\<rparr>) AND Boolean NNDataSetEnums \<noteq> 0"
    by (simp add: NNDataSetEnums_def)
  show ?thesis
    using s b C9_data_scaled_is_scaled_on_boolean [OF s b, of kernels0 0 512 128 42]
    by (simp add: CalculateScaledMarginalCrossEntropyError_def NNDataSetEnums_def kernels_of_def
        run_defs)
qed

text \<open>
  C10. On a sparse analog dataset (Sparse bit set, Boolean bit clear), the data-scaled
  error function and the data-scaled output-delta function do not depend on the weights:
  replacing the weight vector and the weight buffer of the dataset, whatever the Weighted
  bit, leaves the kernel call and the value returned unchanged.
\<close>

theorem C10_data_scaled_ignores_weights:
  assumes "m_attributes this AND Sparse E \<noteq> 0"
    and "m_attributes this AND Boolean E = 0"
  shows
   "CalculateDataScaledMarginalCrossEntropyError K E
      (this\<lparr>m_vDataWeight := vDataWeight, m_pbDataWeight := pbDataWeight\<rparr>) position batch stride pUnit
    = CalculateDataScaledMarginalCrossEntropyError K E this position batch stride pUnit
    \<and> CalculateDataScaledMarginalCrossEntropyOutputDelta E
        (this\<lparr>m_vDataWeight := vDataWeight, m_pbDataWeight := pbDataWeight\<rparr>) activation position batch
        stride pUnit pDelta
    = CalculateDataScaledMarginalCrossEntropyOutputDelta E this activation position batch stride
        pUnit pDelta"
  using assms
  by (simp add: CalculateDataScaledMarginalCrossEntropyError_def
      CalculateDataScaledMarginalCrossEntropyOutputDelta_def run_defs)

theorem C10_data_scaled_ignores_weights_witness:
  "m_attributes (dataset0\<lparr>m_attributes := 129\<rparr>) AND Sparse NNDataSetEnums \<noteq> 0
   \<and> m_attributes (dataset0\<lparr>m_attributes := 129\<rparr>) AND Boolean NNDataSetEnums = 0
   \<and> CalculateDataScaledMarginalCrossEntropyError kernels0 NNDataSetEnums
       (dataset0\<lparr>m_attributes := 129, m_vDataWeight := [5, 7], m_pbDataWeight := \<lparr>m_pDevData = 4000\<rparr>\<rparr>)
       0 512 128 42
     = CalculateDataScaledMarginalCrossEntropyError kernels0 NNDataSetEnums
         (dataset0\<lparr>m_attributes := 129\<rparr>) 0 512 128 42
   \<and> CalculateDataScaledMarginalCrossEntropyOutputDelta NNDataSetEnums
       (dataset0\<lparr>m_attributes := 129, m_vDataWeight := [5, 7], m_pbDataWeight := \<lparr>m_pDevData = 4000\<rparr>\<rparr>)
       SoftMax 0 512 128 42 43
     = CalculateDataScaledMarginalCrossEntropyOutputDelta NNDataSetEnums
         (dataset0\<lparr>m_attributes := 129\<rparr>) SoftMax 0 512 128 42 43"
proof -
  have s: "m_attributes (dataset0\<lparr>m_attributes := 129\<rparr>) AND Sparse NNDataSetEnums \<noteq> 0"
    by (simp add: NNDataSetEnums_def)
  have b: "m_attributes (dataset0\<lparr>m_attributes := 129\<rparr>) AND Boolean NNDataSetEnums = 0"
    by (simp add: NNDataSetEnums_def)
  show ?thesis
    using s b
      C10_data_scaled_ignores_weights [OF s b, where K = kernels0 and vDataWeight = "[5, 7]"
        and pbDataWeight = "\<lparr>m_pDevData = 4000\<rparr>" and position = 0 and batch = 512
        and stride = 128 and pUnit = 42 and activation = SoftMax and pDelta = 43]
    by simp
qed

end
